theory Spec2Isabelle
  imports Main
begin

section \<open>The machine controller of pkg/platform/controller/machine\<close>

text \<open>
  A shallow embedding of \<^verbatim>\<open>machine_controller.go\<close>. The controller is sequential
  code over three kinds of things: the Machine object it was handed, its own registry of
  health loops (\<^verbatim>\<open>healthCache\<close>), and collaborators it calls (lister, provider registry,
  platform client, deleter, work queue, logger). The collaborators are parameters of the
  model: an environment record gives their answers as functions of an abstract world
  \<open>'w\<close>, and every call the controller makes is appended to a trace, so that "calls" and
  "never calls" are statements about that trace.

  \<^verbatim>\<open>Run\<close> and \<^verbatim>\<open>worker\<close> only start goroutines and drain the queue; they are
  not part of the model, which takes what \<^verbatim>\<open>queue.Get()\<close> returned as an argument and
  one tick of a health loop at a time. A Machine that a handler changes through its
  pointer is returned by the model; the copy inside the lister's store is not tracked.
\<close>

subsection \<open>Errors\<close>

text \<open>
  A Go \<^verbatim>\<open>error\<close> value; \<^verbatim>\<open>nil\<close> is \<open>None\<close> of \<open>error option\<close>. The controller
  distinguishes only the API status reason NotFound from everything else, and reads the
  message. \<open>Wrapped p e\<close> is \<^verbatim>\<open>fmt.Errorf(p + ": %w", e)\<close>.
\<close>

datatype error = StatusNotFound string | PlainError string | Wrapped string error

fun Error_msg :: "error \<Rightarrow> string" where
  "Error_msg (StatusNotFound s) = s"
| "Error_msg (PlainError s) = s"
| "Error_msg (Wrapped p e) = p @ '': '' @ Error_msg e"

fun IsNotFound :: "error option \<Rightarrow> bool" where
  "IsNotFound (Some (StatusNotFound s)) = True"
| "IsNotFound _ = False"

subsection \<open>The Machine object\<close>

text \<open>
  Modelled from the spec: the declarations of \<^verbatim>\<open>platformv1.Machine\<close>, its phase
  constants, \<^verbatim>\<open>MachineCondition\<close> and the condition status constants live in
  \<^verbatim>\<open>api/platform/v1\<close>, outside the source under study. The spec's data model gives a
  Machine an identity, a spec (type, owning cluster name, target network address,
  provider-specific parameters) and a status (phase, conditions); a phase is a string,
  one of Initializing, Running, Failed, Terminating when recognised; a condition is
  (type, status, reason, message).
\<close>

type_synonym MachinePhase = string

definition MachineInitializing :: MachinePhase where
  "MachineInitializing = ''Initializing''"

definition MachineRunning :: MachinePhase where
  "MachineRunning = ''Running''"

definition MachineFailed :: MachinePhase where
  "MachineFailed = ''Failed''"

definition MachineTerminating :: MachinePhase where
  "MachineTerminating = ''Terminating''"

type_synonym ConditionStatus = string

definition ConditionTrue :: ConditionStatus where
  "ConditionTrue = ''True''"

definition ConditionFalse :: ConditionStatus where
  "ConditionFalse = ''False''"

record MachineCondition =
  Cond_Type :: string
  Cond_Status :: ConditionStatus
  Cond_Reason :: string
  Cond_Message :: string

record MachineSpec =
  Spec_Type :: string
  Spec_ClusterName :: string
  Spec_IP :: string
  Spec_Params :: "(string \<times> string) list"

record MachineStatus =
  Phase :: MachinePhase
  Conditions :: "MachineCondition list"

record Machine =
  Namespace :: string
  Name :: string
  Spec :: MachineSpec
  Status :: MachineStatus

text \<open>
  Modelled from the spec: \<^verbatim>\<open>Machine.SetCondition\<close> is declared with the type, outside
  the source under study. The spec: conditions are keyed by type, and inserting a
  condition with an existing type replaces it in place; a new type is appended.
\<close>

fun set_cond :: "MachineCondition \<Rightarrow> MachineCondition list \<Rightarrow> MachineCondition list" where
  "set_cond c [] = [c]"
| "set_cond c (d # ds) =
     (if Cond_Type d = Cond_Type c then c # ds else d # set_cond c ds)"

definition SetCondition :: "Machine \<Rightarrow> MachineCondition \<Rightarrow> Machine" where
  "SetCondition m c = m\<lparr>Status := (Status m)\<lparr>Conditions := set_cond c (Conditions (Status m))\<rparr>\<rparr>"

text \<open>Reading a condition back by its type (the first entry of that type).\<close>

fun get_cond :: "string \<Rightarrow> MachineCondition list \<Rightarrow> MachineCondition option" where
  "get_cond t [] = None"
| "get_cond t (d # ds) = (if Cond_Type d = t then Some d else get_cond t ds)"

subsection \<open>Constants of the controller\<close>

definition conditionTypeHealthCheck :: string where
  "conditionTypeHealthCheck = ''HealthCheck''"

definition failedHealthCheckReason :: string where
  "failedHealthCheckReason = ''FailedHealthCheck''"

subsection \<open>Collaborators, trace and controller state\<close>

datatype cluster = Cluster string

datatype clientset = ClientSet string

datatype patch = PatchBytes string

text \<open>
  One entry per call that leaves the controller: log lines, work queue operations,
  \<^verbatim>\<open>HandleError\<close>, provider registry and hooks, cluster lookup, the platform client's
  Update and Patch, the deleter, the downstream client, and \<open>GoHealthLoop k\<close> for the
  \<^verbatim>\<open>go wait.PollImmediateInfinite(...)\<close> statement that detaches a health loop for \<open>k\<close>.
\<close>

datatype event =
    Log string
  | HandleError string
  | QueueAdd string
  | QueueForget string
  | QueueAddRateLimited string
  | QueueDone string
  | ListerGet string
  | CallGetProvider string
  | CallGetClusterByName string
  | CallOnCreate Machine
  | CallOnUpdate Machine
  | CallUpdate Machine
  | CallDelete string
  | GoHealthLoop string
  | CallBuildClientSet string
  | CallNodesGet string
  | CallGetPatchBytes Machine Machine
  | CallPatch string patch

text \<open>
  A provider's hooks receive the Machine by pointer and change it in place: they return
  their error, the Machine as they leave it, and the new world.
\<close>

record 'w provider =
  OnCreate :: "'w \<Rightarrow> Machine \<Rightarrow> cluster \<Rightarrow> error option \<times> Machine \<times> 'w"
  OnUpdate :: "'w \<Rightarrow> Machine \<Rightarrow> cluster \<Rightarrow> error option \<times> Machine \<times> 'w"

record 'w env =
  lister_Get :: "'w \<Rightarrow> string \<Rightarrow> error + Machine"
  GetProvider :: "string \<Rightarrow> error + 'w provider"
  GetClusterByName :: "'w \<Rightarrow> string \<Rightarrow> error + cluster"
  Machines_Update :: "'w \<Rightarrow> Machine \<Rightarrow> error option \<times> 'w"
  Machines_Patch :: "'w \<Rightarrow> string \<Rightarrow> patch \<Rightarrow> error option \<times> 'w"
  deleter_Delete :: "'w \<Rightarrow> string \<Rightarrow> error option \<times> 'w"
  BuildExternalClientSetWithName :: "'w \<Rightarrow> string \<Rightarrow> error + clientset"
  Nodes_Get :: "'w \<Rightarrow> clientset \<Rightarrow> string \<Rightarrow> error option"
  GetPatchBytes :: "Machine \<Rightarrow> Machine \<Rightarrow> error + patch"

record 'w state =
  world :: 'w
  healthCache :: "string set"
  calls :: "event list"

definition emit :: "event list \<Rightarrow> 'w state \<Rightarrow> 'w state" where
  "emit es s = s\<lparr>calls := calls s @ es\<rparr>"

subsection \<open>Keys\<close>

text \<open>
  \<^verbatim>\<open>cache.DeletionHandlingMetaNamespaceKeyFunc\<close> on a \<^verbatim>\<open>*Machine\<close> (client-go): the
  object is not a deletion tombstone, so the key is \<^verbatim>\<open>namespace/name\<close>, or the name
  alone when the namespace is empty; the accessor cannot fail on a typed object.
\<close>

definition DeletionHandlingMetaNamespaceKeyFunc :: "Machine \<Rightarrow> error + string" where
  "DeletionHandlingMetaNamespaceKeyFunc obj =
     (if Namespace obj \<noteq> [] then Inr (Namespace obj @ ''/'' @ Name obj) else Inr (Name obj))"

text \<open>\<^verbatim>\<open>strings.Split(key, "/")\<close>: the last field is accumulated in \<open>cur\<close>.\<close>

fun split_slash :: "string \<Rightarrow> string \<Rightarrow> string list" where
  "split_slash cur [] = [cur]"
| "split_slash cur (c # cs) =
     (if c = CHR ''/'' then cur # split_slash [] cs else split_slash (cur @ [c]) cs)"

text \<open>
  \<^verbatim>\<open>cache.SplitMetaNamespaceKey\<close> (client-go): one field is a name, two are namespace
  and name. The error message quotes the key (\<^verbatim>\<open>%q\<close>; the escapes that verb applies to
  unusual characters are left out).
\<close>

definition SplitMetaNamespaceKey :: "string \<Rightarrow> error + (string \<times> string)" where
  "SplitMetaNamespaceKey key =
     (case split_slash [] key of
        [n] \<Rightarrow> Inr ([], n)
      | [ns, n] \<Rightarrow> Inr (ns, n)
      | _ \<Rightarrow> Inl (PlainError (''unexpected key format: '' @ [CHR 0x22] @ key @ [CHR 0x22])))"

subsection \<open>Event handlers\<close>

definition enqueue :: "Machine \<Rightarrow> 'w state \<Rightarrow> 'w state" where
  "enqueue obj s =
     (case DeletionHandlingMetaNamespaceKeyFunc obj of
        Inl err \<Rightarrow> emit [HandleError (''couldn't get key for object: '' @ Error_msg err)] s
      | Inr key \<Rightarrow> emit [QueueAdd key] s)"

definition addMachine :: "Machine \<Rightarrow> 'w state \<Rightarrow> 'w state" where
  "addMachine machine s = enqueue machine (emit [Log ''Adding machine''] s)"

text \<open>\<^verbatim>\<open>reflect.DeepEqual\<close> on the two specs is equality of the spec records.\<close>

definition needsUpdate :: "Machine \<Rightarrow> Machine \<Rightarrow> bool" where
  "needsUpdate oldMachine newMachine =
     (if \<not> (Spec oldMachine = Spec newMachine) then True else False)"

definition updateMachine :: "Machine \<Rightarrow> Machine \<Rightarrow> 'w state \<Rightarrow> 'w state" where
  "updateMachine oldMachine machine s =
     (if \<not> needsUpdate oldMachine machine then s
      else enqueue machine (emit [Log ''Updating machine''] s))"

subsection \<open>The health scheduler\<close>

text \<open>
  \<^verbatim>\<open>ensureStartHealthCheck\<close>: the random sleep changes no state; the \<^verbatim>\<open>go\<close> statement
  is the trace entry \<open>GoHealthLoop key\<close>; then the key joins \<open>healthCache\<close>.
\<close>

definition ensureStartHealthCheck :: "string \<Rightarrow> 'w state \<Rightarrow> 'w state" where
  "ensureStartHealthCheck key s =
     (if key \<in> healthCache s then s
      else (emit [Log ''Start health check loop'', GoHealthLoop key] s)
             \<lparr>healthCache := insert key (healthCache s)\<rparr>)"

text \<open>
  \<^verbatim>\<open>checkHealth\<close> returns its error; the Machine is changed through the pointer, so the
  model returns it as well. \<open>oldMachine\<close> is the deep copy taken on entry. The node fetch
  is attempted only when the downstream client was built.
\<close>

definition checkHealth :: "'w env \<Rightarrow> Machine \<Rightarrow> 'w state \<Rightarrow> error option \<times> Machine \<times> 'w state" where
  "checkHealth E machine s =
     (let oldMachine = machine;
          healthCheckCondition =
            \<lparr>Cond_Type = conditionTypeHealthCheck, Cond_Status = ConditionFalse,
             Cond_Reason = [], Cond_Message = []\<rparr>;
          s1 = emit [CallBuildClientSet (Spec_ClusterName (Spec machine))] s
      in
      case
        (case BuildExternalClientSetWithName E (world s1) (Spec_ClusterName (Spec machine)) of
           Inl err \<Rightarrow>
             (machine\<lparr>Status := (Status machine)\<lparr>Phase := MachineFailed\<rparr>\<rparr>,
              healthCheckCondition
                \<lparr>Cond_Reason := failedHealthCheckReason, Cond_Message := Error_msg err\<rparr>,
              s1)
         | Inr clientset \<Rightarrow>
             (let s2 = emit [CallNodesGet (Spec_IP (Spec machine))] s1 in
              case Nodes_Get E (world s2) clientset (Spec_IP (Spec machine)) of
                Some err \<Rightarrow>
                  (machine\<lparr>Status := (Status machine)\<lparr>Phase := MachineFailed\<rparr>\<rparr>,
                   healthCheckCondition
                     \<lparr>Cond_Reason := failedHealthCheckReason, Cond_Message := Error_msg err\<rparr>,
                   s2)
              | None \<Rightarrow>
                  (machine\<lparr>Status := (Status machine)\<lparr>Phase := MachineRunning\<rparr>\<rparr>,
                   healthCheckCondition\<lparr>Cond_Status := ConditionTrue\<rparr>,
                   s2)))
      of (machine1, healthCheckCondition1, s3) \<Rightarrow>
        (let machine2 = SetCondition machine1 healthCheckCondition1;
             s4 = emit [CallGetPatchBytes oldMachine machine2] s3
         in
         case GetPatchBytes E oldMachine machine2 of
           Inl err \<Rightarrow> (Some (Wrapped ''GetPatchBytes error'' err), machine2, s4)
         | Inr patchBytes \<Rightarrow>
             (let s5 = emit [CallPatch (Name machine2) patchBytes] s4 in
              case Machines_Patch E (world s5) (Name machine2) patchBytes of
                (perr, w') \<Rightarrow>
                  (case perr of
                     Some err \<Rightarrow>
                       (Some (Wrapped ''update health status error'' err), machine2, s5\<lparr>world := w'\<rparr>)
                   | None \<Rightarrow> (None, machine2, s5\<lparr>world := w'\<rparr>)))))"

text \<open>
  One tick of the closure returned by \<^verbatim>\<open>watchHealth\<close>: (done, err) and the new state.
  \<^verbatim>\<open>wait.PollImmediateInfinite\<close> stops the loop when a tick returns done or an error.
\<close>

definition watchHealth :: "'w env \<Rightarrow> string \<Rightarrow> 'w state \<Rightarrow> (bool \<times> error option) \<times> 'w state" where
  "watchHealth E key s =
     (let s1 = emit [ListerGet key] s in
      case lister_Get E (world s1) key of
        Inl err \<Rightarrow>
          (if IsNotFound (Some err)
           then ((True, None),
                 (emit [Log ''Stop health check because machine has been deleted''] s1)
                   \<lparr>healthCache := healthCache s1 - {key}\<rparr>)
           else ((False, None), s1))
      | Inr machine \<Rightarrow>
          (if \<not> (Phase (Status machine) = MachineRunning \<or> Phase (Status machine) = MachineFailed)
           then ((False, None), s1)
           else (case checkHealth E machine s1 of (err, machine', s2) \<Rightarrow>
                   (case err of
                      Some e \<Rightarrow> ((False, None), emit [Log (''Check health error: '' @ Error_msg e)] s2)
                    | None \<Rightarrow> ((False, None), s2)))))"

subsection \<open>The reconciler\<close>

text \<open>
  The loop of \<^verbatim>\<open>onCreate\<close>. It has no bound in the source: a hook that leaves the phase
  Initializing while every Update succeeds keeps it running, and then the model's value
  is \<open>None\<close>. The variable \<open>err\<close> is the one the source returns after the loop.
\<close>

partial_function (option) onCreate_loop ::
  "'w env \<Rightarrow> 'w provider \<Rightarrow> cluster \<Rightarrow> error option \<Rightarrow> Machine \<Rightarrow> 'w state
     \<Rightarrow> (error option \<times> Machine \<times> 'w state) option" where
  "onCreate_loop E provider cl err machine s =
     (if Phase (Status machine) = MachineInitializing then
        (case OnCreate provider (world s) machine cl of
           (err1, machine1, w1) \<Rightarrow>
             (case Machines_Update E w1 machine1 of
                (err2, w2) \<Rightarrow>
                  (if err2 \<noteq> None
                   then Some (err2, machine1,
                              (emit [CallOnCreate machine, CallUpdate machine1] s)\<lparr>world := w2\<rparr>)
                   else onCreate_loop E provider cl err2 machine1
                          ((emit [CallOnCreate machine, CallUpdate machine1] s)\<lparr>world := w2\<rparr>))))
      else Some (err, machine, s))"

declare onCreate_loop.simps [code]

definition onCreate ::
  "'w env \<Rightarrow> Machine \<Rightarrow> 'w state \<Rightarrow> (error option \<times> Machine \<times> 'w state) option" where
  "onCreate E machine s =
     (let s1 = emit [CallGetProvider (Spec_Type (Spec machine))] s in
      case GetProvider E (Spec_Type (Spec machine)) of
        Inl err \<Rightarrow> Some (Some err, machine, s1)
      | Inr provider \<Rightarrow>
          (let s2 = emit [CallGetClusterByName (Spec_ClusterName (Spec machine))] s1 in
           case GetClusterByName E (world s2) (Spec_ClusterName (Spec machine)) of
             Inl err \<Rightarrow> Some (Some err, machine, s2)
           | Inr cl \<Rightarrow> onCreate_loop E provider cl None machine s2))"

definition onUpdate :: "'w env \<Rightarrow> Machine \<Rightarrow> 'w state \<Rightarrow> error option \<times> Machine \<times> 'w state" where
  "onUpdate E machine s =
     (let s0 = ensureStartHealthCheck (Name machine) s;
          s1 = emit [CallGetProvider (Spec_Type (Spec machine))] s0
      in
      case GetProvider E (Spec_Type (Spec machine)) of
        Inl err \<Rightarrow> (Some err, machine, s1)
      | Inr provider \<Rightarrow>
          (let s2 = emit [CallGetClusterByName (Spec_ClusterName (Spec machine))] s1 in
           case GetClusterByName E (world s2) (Spec_ClusterName (Spec machine)) of
             Inl err \<Rightarrow> (Some err, machine, s2)
           | Inr cl \<Rightarrow>
               (case OnUpdate provider (world s2) machine cl of
                  (err1, machine1, w1) \<Rightarrow>
                    (case Machines_Update E w1 machine1 of
                       (err2, w2) \<Rightarrow>
                         (let s3 = (emit [CallOnUpdate machine, CallUpdate machine1] s2)\<lparr>world := w2\<rparr> in
                          if err2 \<noteq> None then (err2, machine1, s3)
                          else (None, machine1, s3))))))"

definition reconcile ::
  "'w env \<Rightarrow> string \<Rightarrow> Machine \<Rightarrow> 'w state \<Rightarrow> (error option \<times> Machine \<times> 'w state) option" where
  "reconcile E key machine s =
     (if Phase (Status machine) = MachineInitializing then onCreate E machine s
      else if Phase (Status machine) = MachineRunning \<or> Phase (Status machine) = MachineFailed
      then Some (onUpdate E machine s)
      else if Phase (Status machine) = MachineTerminating then
        (let s1 = emit [Log ''Machine has been terminated. Attempting to cleanup resources'',
                        CallDelete key] s
         in
         case deleter_Delete E (world s1) key of
           (err, w') \<Rightarrow>
             (if err = None
              then Some (err, machine,
                         (emit [Log ''Machine has been successfully deleted''] s1)\<lparr>world := w'\<rparr>)
              else Some (err, machine, s1\<lparr>world := w'\<rparr>)))
      else Some (None, machine, emit [Log ''unknown machine phase''] s))"

text \<open>
  \<^verbatim>\<open>syncMachine\<close>. The deferred log line runs on every return. The Machine that
  \<^verbatim>\<open>reconcile\<close> changed stays behind in the lister's store; \<^verbatim>\<open>syncMachine\<close> returns the
  error only.
\<close>

definition syncMachine :: "'w env \<Rightarrow> string \<Rightarrow> 'w state \<Rightarrow> (error option \<times> 'w state) option" where
  "syncMachine E key s =
     (case SplitMetaNamespaceKey key of
        Inl err \<Rightarrow> Some (Some err, emit [Log ''Finished syncing machine''] s)
      | Inr (ns, name) \<Rightarrow>
          (let s1 = emit [ListerGet name] s in
           case lister_Get E (world s1) name of
             Inl err \<Rightarrow>
               (let s2 = (if IsNotFound (Some err) then emit [Log ''Machine has been deleted''] s1
                          else s1)
                in
                Some (Some err,
                      emit [HandleError (''unable to retrieve machine '' @ key @ '' from store: ''
                                           @ Error_msg err),
                            Log ''Finished syncing machine''] s2))
           | Inr machine \<Rightarrow>
               (case reconcile E key machine s1 of
                  None \<Rightarrow> None
                | Some (err, machine', s2) \<Rightarrow>
                    Some (err, emit [Log ''Finished syncing machine''] s2))))"

text \<open>
  \<^verbatim>\<open>processNextWorkItem\<close>, given what \<^verbatim>\<open>queue.Get()\<close> returned. The deferred
  \<^verbatim>\<open>queue.Done(key)\<close> is the last call.
\<close>

definition processNextWorkItem ::
  "'w env \<Rightarrow> string \<times> bool \<Rightarrow> 'w state \<Rightarrow> (bool \<times> 'w state) option" where
  "processNextWorkItem E got s =
     (case got of
        (key, quit) \<Rightarrow>
          (if quit then Some (False, s)
           else
             (case syncMachine E key s of
                None \<Rightarrow> None
              | Some (err, s1) \<Rightarrow>
                  (case err of
                     None \<Rightarrow> Some (True, emit [QueueForget key, QueueDone key] s1)
                   | Some e \<Rightarrow>
                       Some (True,
                             emit [HandleError (''error processing machine '' @ key
                                                  @ '' (will retry): '' @ Error_msg e),
                                   QueueAddRateLimited key, QueueDone key] s1)))))"

text \<open>
  \<^verbatim>\<open>wait.PollImmediateInfinite\<close> ends a loop when its condition returns done or an error.
\<close>

definition poll_stops :: "bool \<times> error option \<Rightarrow> bool" where
  "poll_stops r = (fst r \<or> snd r \<noteq> None)"

subsection \<open>Reading a run\<close>

text \<open>The calls a run added to the trace, and the health condition of a Machine.\<close>

definition new_calls :: "'w state \<Rightarrow> 'w state \<Rightarrow> event list" where
  "new_calls s s' = drop (length (calls s)) (calls s')"

definition health_condition :: "Machine \<Rightarrow> MachineCondition option" where
  "health_condition m = get_cond conditionTypeHealthCheck (Conditions (Status m))"

fun is_hook_call :: "event \<Rightarrow> bool" where
  "is_hook_call (CallOnCreate m) = True"
| "is_hook_call (CallOnUpdate m) = True"
| "is_hook_call _ = False"

fun is_health_start :: "event \<Rightarrow> bool" where
  "is_health_start (GoHealthLoop k) = True"
| "is_health_start _ = False"

text \<open>The lister answered with an error whose status reason is NotFound.\<close>

definition lookup_not_found :: "'w env \<Rightarrow> 'w \<Rightarrow> string \<Rightarrow> bool" where
  "lookup_not_found E w k =
     (case lister_Get E w k of Inl e \<Rightarrow> IsNotFound (Some e) | Inr m \<Rightarrow> False)"


subsection \<open>Concrete collaborators for the worked examples\<close>

definition example_machine :: "string \<Rightarrow> MachinePhase \<Rightarrow> Machine" where
  "example_machine ty ph =
     \<lparr>Namespace = [], Name = ''m1'',
      Spec = \<lparr>Spec_Type = ty, Spec_ClusterName = ''cls-1'', Spec_IP = ''10.0.0.1'',
              Spec_Params = []\<rparr>,
      Status = \<lparr>Phase = ph, Conditions = []\<rparr>\<rparr>"

text \<open>
  A provider whose create hook fails on its first call, leaving the Machine as it was,
  and on later calls moves it to Running; the world counts the calls.
\<close>

definition flaky_provider :: "nat provider" where
  "flaky_provider =
     \<lparr>OnCreate = (\<lambda>w m c.
         if w = 0 then (Some (PlainError ''create step failed''), m, Suc w)
         else (None, m\<lparr>Status := (Status m)\<lparr>Phase := MachineRunning\<rparr>\<rparr>, Suc w)),
      OnUpdate = (\<lambda>w m c. (None, m, w))\<rparr>"

text \<open>A provider whose hooks leave the Machine as they found it.\<close>

definition idle_provider :: "nat provider" where
  "idle_provider =
     \<lparr>OnCreate = (\<lambda>w m c. (Some (PlainError ''not ready''), m, w)),
      OnUpdate = (\<lambda>w m c. (None, m, w))\<rparr>"

text \<open>
  An environment that answers every lookup with \<open>got\<close>, every downstream client build
  with \<open>built\<close> and every node fetch with \<open>node\<close>; it knows the machine type "dummy"
  only, and its remote store and deleter accept everything.
\<close>

definition example_env :: "(error + Machine) \<Rightarrow> (error + clientset) \<Rightarrow> error option \<Rightarrow> nat env" where
  "example_env got built node =
     \<lparr>lister_Get = (\<lambda>w n. got),
      GetProvider = (\<lambda>t. if t = ''dummy'' then Inr flaky_provider
                          else Inl (PlainError ''unknown machine type'')),
      GetClusterByName = (\<lambda>w n. Inr (Cluster n)),
      Machines_Update = (\<lambda>w m. (None, w)),
      Machines_Patch = (\<lambda>w n p. (None, w)),
      deleter_Delete = (\<lambda>w k. (None, w)),
      BuildExternalClientSetWithName = (\<lambda>w n. built),
      Nodes_Get = (\<lambda>w cs ip. node),
      GetPatchBytes = (\<lambda>old new. Inr (PatchBytes ''{}''))\<rparr>"

definition example_state :: "string set \<Rightarrow> nat state" where
  "example_state hc = \<lparr>world = 0, healthCache = hc, calls = []\<rparr>"

section \<open>Properties\<close>

subsection \<open>Shared facts\<close>

lemmas phase_defs =
  MachineInitializing_def MachineRunning_def MachineFailed_def MachineTerminating_def

lemma get_cond_set_cond: "get_cond (Cond_Type c) (set_cond c cs) = Some c"
  by (induction cs) auto

lemma checkHealth_healthCache: "healthCache (snd (snd (checkHealth E m s))) = healthCache s"
  by (auto simp add: checkHealth_def emit_def Let_def split: sum.splits prod.splits option.splits)


text \<open>
  Whatever the lister's error is, \<^verbatim>\<open>syncMachine\<close> hands it back to its caller: the
  NotFound test only adds a log line.
\<close>

lemma syncMachine_returns_lookup_error:
  assumes "SplitMetaNamespaceKey key = Inr (ns, name)"
    and "lister_Get E (world s) name = Inl e"
  shows "\<exists>s'. syncMachine E key s = Some (Some e, s')"
  using assms by (simp add: syncMachine_def emit_def Let_def)







text \<open>
  The loop has no exit of its own: with a create hook that keeps the phase and a store
  that accepts every Update, a pass that starts in Initializing does not return, also
  when the hook reports an error on every call.
\<close>

lemma onCreate_loop_spins_aux:
  assumes run: "onCreate_loop Ea pa cla erra ma sa = Some ra"
  shows "\<not> (Phase (Status ma) = MachineInitializing
            \<and> (\<forall>w mm c. Phase (Status (fst (snd (OnCreate pa w mm c)))) = Phase (Status mm))
            \<and> (\<forall>w mm. fst (Machines_Update Ea w mm) = None))"
proof (rule onCreate_loop.raw_induct
    [where P = "\<lambda>E p cl err m s r.
        \<not> (Phase (Status m) = MachineInitializing
            \<and> (\<forall>w mm c. Phase (Status (fst (snd (OnCreate p w mm c)))) = Phase (Status mm))
            \<and> (\<forall>w mm. fst (Machines_Update E w mm) = None))", OF _ run])
  fix loop :: "'a env \<Rightarrow> 'a provider \<Rightarrow> cluster \<Rightarrow> error option \<Rightarrow> Machine \<Rightarrow> 'a state
                 \<Rightarrow> (error option \<times> Machine \<times> 'a state) option"
  fix E p cl err m s r
  assume IH: "\<And>E p cl err m s r. loop E p cl err m s = Some r \<Longrightarrow>
        \<not> (Phase (Status m) = MachineInitializing
            \<and> (\<forall>w mm c. Phase (Status (fst (snd (OnCreate p w mm c)))) = Phase (Status mm))
            \<and> (\<forall>w mm. fst (Machines_Update E w mm) = None))"
  assume eq: "(if Phase (Status m) = MachineInitializing then
        (case OnCreate p (world s) m cl of
           (err1, machine1, w1) \<Rightarrow>
             (case Machines_Update E w1 machine1 of
                (err2, w2) \<Rightarrow>
                  (if err2 \<noteq> None
                   then Some (err2, machine1,
                              (emit [CallOnCreate m, CallUpdate machine1] s)\<lparr>world := w2\<rparr>)
                   else loop E p cl err2 machine1
                          ((emit [CallOnCreate m, CallUpdate machine1] s)\<lparr>world := w2\<rparr>))))
      else Some (err, m, s)) = Some r"
  show "\<not> (Phase (Status m) = MachineInitializing
            \<and> (\<forall>w mm c. Phase (Status (fst (snd (OnCreate p w mm c)))) = Phase (Status mm))
            \<and> (\<forall>w mm. fst (Machines_Update E w mm) = None))"
  proof
    assume a: "Phase (Status m) = MachineInitializing
            \<and> (\<forall>w mm c. Phase (Status (fst (snd (OnCreate p w mm c)))) = Phase (Status mm))
            \<and> (\<forall>w mm. fst (Machines_Update E w mm) = None)"
    obtain e1 m1 w1 where h: "OnCreate p (world s) m cl = (e1, m1, w1)"
      by (cases "OnCreate p (world s) m cl") auto
    obtain e2 w2 where u: "Machines_Update E w1 m1 = (e2, w2)"
      by (cases "Machines_Update E w1 m1") auto
    from a h have keep: "Phase (Status m1) = MachineInitializing"
      by (metis fst_conv snd_conv)
    from a u have ok: "e2 = None"
      by (metis fst_conv)
    from eq a h u ok
    have "loop E p cl None m1 ((emit [CallOnCreate m, CallUpdate m1] s)\<lparr>world := w2\<rparr>) = Some r"
      by simp
    from IH [OF this] keep a show False by blast
  qed
qed

lemma reconcile_spins_on_failing_hook:
  "reconcile
     ((example_env (Inr (example_machine ''dummy'' MachineInitializing)) (Inr (ClientSet ''cls-1'')) None)
        \<lparr>GetProvider := (\<lambda>t. Inr idle_provider)\<rparr>)
     ''m1'' (example_machine ''dummy'' MachineInitializing) (example_state {}) = None"
proof (rule ccontr)
  let ?E = "(example_env (Inr (example_machine ''dummy'' MachineInitializing)) (Inr (ClientSet ''cls-1'')) None)
        \<lparr>GetProvider := (\<lambda>t. Inr idle_provider)\<rparr>"
  assume "reconcile ?E ''m1'' (example_machine ''dummy'' MachineInitializing) (example_state {}) \<noteq> None"
  then obtain r where
    "reconcile ?E ''m1'' (example_machine ''dummy'' MachineInitializing) (example_state {}) = Some r"
    by blast
  then have "onCreate_loop ?E idle_provider (Cluster ''cls-1'') None
               (example_machine ''dummy'' MachineInitializing)
               (emit [CallGetClusterByName ''cls-1''] (emit [CallGetProvider ''dummy''] (example_state {})))
             = Some r"
    by (simp add: reconcile_def onCreate_def example_env_def example_machine_def Let_def)
  from onCreate_loop_spins_aux [OF this] show False
    by (simp add: example_env_def example_machine_def idle_provider_def)
qed

subsection \<open>Reconciliation by key\<close>

text \<open>
  C1. Claim: when the lister reports that the Machine of a key is absent (NotFound),
  \<^verbatim>\<open>syncMachine\<close> treats the pass as a completed no-op and returns no error, so the
  worker forgets the key instead of requeueing it with backoff.
  The code does not do this. For the key "m1" and a lister answering NotFound,
  \<^verbatim>\<open>syncMachine\<close> logs "Machine has been deleted", then falls into the general error
  branch and returns the NotFound error; \<^verbatim>\<open>processNextWorkItem\<close> reports it and calls
  \<^verbatim>\<open>AddRateLimited\<close>, never \<^verbatim>\<open>Forget\<close>.
\<close>

theorem syncMachine_not_found_is_requeued:
  "syncMachine (example_env (Inl (StatusNotFound ''machine m1 not found'')) (Inr (ClientSet ''cls-1'')) None)
       ''m1'' (example_state {})
     = Some (Some (StatusNotFound ''machine m1 not found''),
             \<lparr>world = 0, healthCache = {},
              calls = [ListerGet ''m1'', Log ''Machine has been deleted'',
                       HandleError ''unable to retrieve machine m1 from store: machine m1 not found'',
                       Log ''Finished syncing machine'']\<rparr>)
   \<and> processNextWorkItem
         (example_env (Inl (StatusNotFound ''machine m1 not found'')) (Inr (ClientSet ''cls-1'')) None)
         (''m1'', False) (example_state {})
     = Some (True,
             \<lparr>world = 0, healthCache = {},
              calls = [ListerGet ''m1'', Log ''Machine has been deleted'',
                       HandleError ''unable to retrieve machine m1 from store: machine m1 not found'',
                       Log ''Finished syncing machine'',
                       HandleError ''error processing machine m1 (will retry): machine m1 not found'',
                       QueueAddRateLimited ''m1'', QueueDone ''m1'']\<rparr>)"
  by (simp add: processNextWorkItem_def syncMachine_def SplitMetaNamespaceKey_def emit_def
      example_env_def example_state_def)

subsection \<open>The Initializing handler\<close>

text \<open>
  C2. Claim: in a pass of the Initializing handler, an error returned by the provider's
  create hook aborts the pass and is returned to the caller for retry; no hook error is
  dropped inside the loop.
  The code does not do this, although its own comment in the loop says it should: the
  hook's error is overwritten by the result of the Update that follows. With a provider
  whose first \<^verbatim>\<open>OnCreate\<close> call fails and leaves the phase Initializing, and a store
  that accepts the Update, the pass goes on to call the hook a second time and returns
  no error at all.
\<close>

theorem onCreate_swallows_hook_error:
  "fst (OnCreate flaky_provider 0 (example_machine ''dummy'' MachineInitializing) (Cluster ''cls-1''))
     = Some (PlainError ''create step failed'')
   \<and> reconcile (example_env (Inr (example_machine ''dummy'' MachineInitializing)) (Inr (ClientSet ''cls-1'')) None)
         ''m1'' (example_machine ''dummy'' MachineInitializing) (example_state {})
     = Some (None, example_machine ''dummy'' MachineRunning,
             \<lparr>world = 2, healthCache = {},
              calls = [CallGetProvider ''dummy'', CallGetClusterByName ''cls-1'',
                       CallOnCreate (example_machine ''dummy'' MachineInitializing),
                       CallUpdate (example_machine ''dummy'' MachineInitializing),
                       CallOnCreate (example_machine ''dummy'' MachineInitializing),
                       CallUpdate (example_machine ''dummy'' MachineRunning)]\<rparr>)"
  by (simp add: reconcile_def onCreate_def onCreate_loop.simps emit_def phase_defs
      example_env_def example_state_def example_machine_def flaky_provider_def)

subsection \<open>Phase dispatch\<close>

text \<open>
  C4. For every Machine whose observed phase is Terminating, \<^verbatim>\<open>reconcile\<close> returns, and
  the only collaborator it calls is the deleter's \<^verbatim>\<open>Delete(key)\<close> (around it, log lines):
  its result is the deleter's error, the Machine is untouched, no provisioning hook is
  called and no health loop is started (the registry is unchanged).
\<close>

theorem reconcile_terminating_only_deletes:
  assumes "Phase (Status m) = MachineTerminating"
  shows "\<exists>err s'. reconcile E key m s = Some (err, m, s')
           \<and> (err, world s') = deleter_Delete E (world s) key
           \<and> healthCache s' = healthCache s
           \<and> new_calls s s' =
                [Log ''Machine has been terminated. Attempting to cleanup resources'', CallDelete key]
                @ (if err = None then [Log ''Machine has been successfully deleted''] else [])
           \<and> (\<forall>ev \<in> set (new_calls s s'). \<not> is_hook_call ev \<and> \<not> is_health_start ev)"
  using assms
  by (cases "deleter_Delete E (world s) key")
     (auto simp add: reconcile_def phase_defs emit_def new_calls_def Let_def)

theorem reconcile_terminating_only_deletes_witness:
  "Phase (Status (example_machine ''dummy'' MachineTerminating)) = MachineTerminating
   \<and> (\<exists>err s'.
         reconcile (example_env (Inr (example_machine ''dummy'' MachineTerminating)) (Inr (ClientSet ''cls-1'')) None)
           ''m1'' (example_machine ''dummy'' MachineTerminating) (example_state {''m0''})
           = Some (err, example_machine ''dummy'' MachineTerminating, s')
         \<and> healthCache s' = {''m0''}
         \<and> new_calls (example_state {''m0''}) s' =
             [Log ''Machine has been terminated. Attempting to cleanup resources'', CallDelete ''m1'',
              Log ''Machine has been successfully deleted''])"
proof -
  have h: "Phase (Status (example_machine ''dummy'' MachineTerminating)) = MachineTerminating"
    by (simp add: example_machine_def)
  from reconcile_terminating_only_deletes [OF h,
      of "example_env (Inr (example_machine ''dummy'' MachineTerminating)) (Inr (ClientSet ''cls-1'')) None"
         "''m1''" "example_state {''m0''}"]
  obtain err s' where r:
    "reconcile (example_env (Inr (example_machine ''dummy'' MachineTerminating)) (Inr (ClientSet ''cls-1'')) None)
           ''m1'' (example_machine ''dummy'' MachineTerminating) (example_state {''m0''})
           = Some (err, example_machine ''dummy'' MachineTerminating, s')"
    and d: "(err, world s') =
              deleter_Delete
                (example_env (Inr (example_machine ''dummy'' MachineTerminating)) (Inr (ClientSet ''cls-1'')) None)
                (world (example_state {''m0''})) ''m1''"
    and hc: "healthCache s' = healthCache (example_state {''m0''})"
    and nc: "new_calls (example_state {''m0''}) s' =
                [Log ''Machine has been terminated. Attempting to cleanup resources'', CallDelete ''m1'']
                @ (if err = None then [Log ''Machine has been successfully deleted''] else [])"
    by blast
  from d have "err = None" by (simp add: example_env_def)
  with r hc nc h show ?thesis by (auto simp add: example_state_def)
qed

text \<open>
  C5. For every Machine whose observed phase is none of Initializing, Running, Failed
  and Terminating, \<^verbatim>\<open>reconcile\<close> returns nil, leaves the Machine as it is and calls
  nothing but the logger (no provider, no store, no deleter, no health loop); a worker
  that picked the key up for such a Machine forgets the key, it does not requeue it.
\<close>

theorem reconcile_unknown_phase_noop:
  assumes "Phase (Status m) \<notin> {MachineInitializing, MachineRunning, MachineFailed, MachineTerminating}"
  shows "reconcile E key m s = Some (None, m, emit [Log ''unknown machine phase''] s)
     \<and> (\<forall>ns name. SplitMetaNamespaceKey key = Inr (ns, name) \<and> lister_Get E (world s) name = Inr m \<longrightarrow>
          processNextWorkItem E (key, False) s =
            Some (True, emit [ListerGet name, Log ''unknown machine phase'',
                              Log ''Finished syncing machine'', QueueForget key, QueueDone key] s))"
  using assms
  by (auto simp add: reconcile_def processNextWorkItem_def syncMachine_def emit_def Let_def)

theorem reconcile_unknown_phase_noop_witness:
  "Phase (Status (example_machine ''dummy'' ''Pending''))
      \<notin> {MachineInitializing, MachineRunning, MachineFailed, MachineTerminating}
   \<and> reconcile (example_env (Inr (example_machine ''dummy'' ''Pending'')) (Inr (ClientSet ''cls-1'')) None)
        ''m1'' (example_machine ''dummy'' ''Pending'') (example_state {})
       = Some (None, example_machine ''dummy'' ''Pending'',
               \<lparr>world = 0, healthCache = {}, calls = [Log ''unknown machine phase'']\<rparr>)
   \<and> processNextWorkItem (example_env (Inr (example_machine ''dummy'' ''Pending'')) (Inr (ClientSet ''cls-1'')) None)
        (''m1'', False) (example_state {})
       = Some (True, \<lparr>world = 0, healthCache = {},
                      calls = [ListerGet ''m1'', Log ''unknown machine phase'',
                               Log ''Finished syncing machine'', QueueForget ''m1'', QueueDone ''m1'']\<rparr>)"
proof -
  have h: "Phase (Status (example_machine ''dummy'' ''Pending''))
      \<notin> {MachineInitializing, MachineRunning, MachineFailed, MachineTerminating}"
    by (simp add: example_machine_def phase_defs)
  have k: "SplitMetaNamespaceKey ''m1'' = Inr ([], ''m1'')"
    by (simp add: SplitMetaNamespaceKey_def)
  have l: "lister_Get (example_env (Inr (example_machine ''dummy'' ''Pending'')) (Inr (ClientSet ''cls-1'')) None)
             (world (example_state {})) ''m1'' = Inr (example_machine ''dummy'' ''Pending'')"
    by (simp add: example_env_def)
  from reconcile_unknown_phase_noop [OF h,
      of "example_env (Inr (example_machine ''dummy'' ''Pending'')) (Inr (ClientSet ''cls-1'')) None"
         "''m1''" "example_state {}"] k l h
  show ?thesis by (simp add: emit_def example_state_def)
qed

text \<open>
  C10. For every reconciliation of a Machine in phase Running or Failed, the pass
  returns, and \<^verbatim>\<open>ensureStartHealthCheck\<close> for the Machine's name comes first, before
  the provider is resolved: afterwards the name is in the registry whatever the outcome
  (unknown machine type, failed cluster lookup, failed Update), and if it was not in the
  registry before, the first new calls are the start of the health loop followed by
  \<^verbatim>\<open>GetProvider\<close>.
\<close>

theorem onUpdate_ensures_health_loop_first:
  assumes "Phase (Status m) = MachineRunning \<or> Phase (Status m) = MachineFailed"
  shows "\<exists>err m' s' rest.
           reconcile E key m s = Some (err, m', s')
         \<and> Name m \<in> healthCache s'
         \<and> calls s' = calls (ensureStartHealthCheck (Name m) s)
                        @ CallGetProvider (Spec_Type (Spec m)) # rest
         \<and> (Name m \<notin> healthCache s \<longrightarrow>
              new_calls s s' = Log ''Start health check loop'' # GoHealthLoop (Name m)
                                 # CallGetProvider (Spec_Type (Spec m)) # rest)"
  using assms
  by (auto simp add: reconcile_def onUpdate_def phase_defs emit_def Let_def new_calls_def
      ensureStartHealthCheck_def split: sum.splits prod.splits option.splits)

theorem onUpdate_ensures_health_loop_first_witness:
  "(Phase (Status (example_machine ''unknown-type'' MachineRunning)) = MachineRunning
      \<or> Phase (Status (example_machine ''unknown-type'' MachineRunning)) = MachineFailed)
   \<and> GetProvider (example_env (Inr (example_machine ''unknown-type'' MachineRunning)) (Inr (ClientSet ''cls-1'')) None)
        ''unknown-type'' = Inl (PlainError ''unknown machine type'')
   \<and> (\<exists>err m' s' rest.
         reconcile (example_env (Inr (example_machine ''unknown-type'' MachineRunning)) (Inr (ClientSet ''cls-1'')) None)
           ''m1'' (example_machine ''unknown-type'' MachineRunning) (example_state {})
           = Some (err, m', s')
       \<and> ''m1'' \<in> healthCache s'
       \<and> new_calls (example_state {}) s' =
           Log ''Start health check loop'' # GoHealthLoop ''m1'' # CallGetProvider ''unknown-type'' # rest)"
proof -
  have h: "Phase (Status (example_machine ''unknown-type'' MachineRunning)) = MachineRunning
      \<or> Phase (Status (example_machine ''unknown-type'' MachineRunning)) = MachineFailed"
    by (simp add: example_machine_def)
  have g: "GetProvider (example_env (Inr (example_machine ''unknown-type'' MachineRunning)) (Inr (ClientSet ''cls-1'')) None)
        ''unknown-type'' = Inl (PlainError ''unknown machine type'')"
    by (simp add: example_env_def)
  have n: "Name (example_machine ''unknown-type'' MachineRunning) = ''m1''"
          "Spec_Type (Spec (example_machine ''unknown-type'' MachineRunning)) = ''unknown-type''"
          "''m1'' \<notin> healthCache (example_state {})"
    by (simp_all add: example_machine_def example_state_def)
  from onUpdate_ensures_health_loop_first [OF h,
      of "example_env (Inr (example_machine ''unknown-type'' MachineRunning)) (Inr (ClientSet ''cls-1'')) None"
         "''m1''" "example_state {}"]
  show ?thesis unfolding n using h g n(3) by blast
qed

subsection \<open>Event handlers\<close>

text \<open>
  C7. For every update notification (old, new), a key is added to the queue if and only
  if the spec of new differs from the spec of old: with equal specs (a change of status
  or of any other field) the handler does nothing at all; with different specs it logs
  and adds the key of new.
\<close>

theorem updateMachine_enqueues_iff_spec_differs:
  "((\<exists>k. QueueAdd k \<in> set (new_calls s (updateMachine old new s))) \<longleftrightarrow> Spec new \<noteq> Spec old)
   \<and> (Spec new = Spec old \<longrightarrow> updateMachine old new s = s)
   \<and> (Spec new \<noteq> Spec old \<longrightarrow>
        (\<exists>k. DeletionHandlingMetaNamespaceKeyFunc new = Inr k
            \<and> updateMachine old new s = emit [Log ''Updating machine'', QueueAdd k] s))"
  by (auto simp add: updateMachine_def needsUpdate_def enqueue_def
      DeletionHandlingMetaNamespaceKeyFunc_def emit_def new_calls_def)

theorem updateMachine_enqueues_iff_spec_differs_witness:
  "(Spec (example_machine ''dummy'' MachineFailed) = Spec (example_machine ''dummy'' MachineRunning)
    \<and> updateMachine (example_machine ''dummy'' MachineRunning) (example_machine ''dummy'' MachineFailed)
        (example_state {}) = example_state {})
   \<and> (Spec (example_machine ''other'' MachineRunning) \<noteq> Spec (example_machine ''dummy'' MachineRunning)
    \<and> updateMachine (example_machine ''dummy'' MachineRunning) (example_machine ''other'' MachineRunning)
        (example_state {})
      = \<lparr>world = 0, healthCache = {}, calls = [Log ''Updating machine'', QueueAdd ''m1'']\<rparr>)"
proof -
  have a: "Spec (example_machine ''dummy'' MachineFailed) = Spec (example_machine ''dummy'' MachineRunning)"
    by (simp add: example_machine_def)
  have b: "Spec (example_machine ''other'' MachineRunning) \<noteq> Spec (example_machine ''dummy'' MachineRunning)"
    by (simp add: example_machine_def)
  have k: "DeletionHandlingMetaNamespaceKeyFunc (example_machine ''other'' MachineRunning) = Inr ''m1''"
    by (simp add: DeletionHandlingMetaNamespaceKeyFunc_def example_machine_def)
  from a b k
    updateMachine_enqueues_iff_spec_differs
      [of "example_state {}" "example_machine ''dummy'' MachineRunning" "example_machine ''dummy'' MachineFailed"]
    updateMachine_enqueues_iff_spec_differs
      [of "example_state {}" "example_machine ''dummy'' MachineRunning" "example_machine ''other'' MachineRunning"]
  show ?thesis by (simp add: emit_def example_state_def)
qed

subsection \<open>Health scheduler\<close>

text \<open>
  C8. \<^verbatim>\<open>ensureStartHealthCheck\<close> is idempotent per key: a call for a key that is in the
  registry changes nothing; after any call the key is in the registry, so a second call
  in sequence is a no-op; two calls in sequence from a state without the key start
  exactly one health loop for it.
\<close>

theorem ensureStartHealthCheck_idempotent:
  "(k \<in> healthCache s \<longrightarrow> ensureStartHealthCheck k s = s)
   \<and> k \<in> healthCache (ensureStartHealthCheck k s)
   \<and> ensureStartHealthCheck k (ensureStartHealthCheck k s) = ensureStartHealthCheck k s
   \<and> (k \<notin> healthCache s \<longrightarrow>
        count_list (new_calls s (ensureStartHealthCheck k (ensureStartHealthCheck k s))) (GoHealthLoop k) = 1)"
  by (simp add: ensureStartHealthCheck_def emit_def new_calls_def)

theorem ensureStartHealthCheck_idempotent_witness:
  "(''m1'' \<in> healthCache (example_state {''m1''})
    \<and> ensureStartHealthCheck ''m1'' (example_state {''m1''}) = example_state {''m1''})
   \<and> (''m1'' \<notin> healthCache (example_state {})
    \<and> count_list (new_calls (example_state {})
         (ensureStartHealthCheck ''m1'' (ensureStartHealthCheck ''m1'' (example_state {}))))
         (GoHealthLoop ''m1'') = 1)"
proof -
  have a: "''m1'' \<in> healthCache (example_state {''m1''})"
    by (simp add: example_state_def)
  have b: "''m1'' \<notin> healthCache (example_state {})"
    by (simp add: example_state_def)
  from a ensureStartHealthCheck_idempotent [of "''m1''" "example_state {''m1''}"]
  have A: "ensureStartHealthCheck ''m1'' (example_state {''m1''}) = example_state {''m1''}"
    by blast
  from b ensureStartHealthCheck_idempotent [of "''m1''" "example_state {}"]
  have B: "count_list (new_calls (example_state {})
         (ensureStartHealthCheck ''m1'' (ensureStartHealthCheck ''m1'' (example_state {}))))
         (GoHealthLoop ''m1'') = 1"
    by blast
  from a b A B show ?thesis by blast
qed

text \<open>
  C6. For every tick of the health loop of key k: the tick ends the loop (it returns
  done, or an error) if and only if the lister's answer for k is NotFound; in that case
  it returns done and k leaves the registry; in every other case (another lookup error,
  a phase outside Running and Failed, a probe with any outcome, a failed patch) it
  returns not done with no error and the registry is as it was.
\<close>

theorem watchHealth_stops_iff_not_found:
  "(poll_stops (fst (watchHealth E k s)) \<longleftrightarrow> lookup_not_found E (world s) k)
   \<and> (lookup_not_found E (world s) k \<longrightarrow>
        fst (watchHealth E k s) = (True, None)
      \<and> healthCache (snd (watchHealth E k s)) = healthCache s - {k})
   \<and> (\<not> lookup_not_found E (world s) k \<longrightarrow>
        fst (watchHealth E k s) = (False, None)
      \<and> healthCache (snd (watchHealth E k s)) = healthCache s)"
proof (cases "lister_Get E (world s) k")
  case (Inl e)
  then show ?thesis
    by (simp add: watchHealth_def lookup_not_found_def poll_stops_def emit_def Let_def)
next
  case (Inr machine)
  obtain err m' s2 where c: "checkHealth E machine (emit [ListerGet k] s) = (err, m', s2)"
    by (cases "checkHealth E machine (emit [ListerGet k] s)") auto
  from checkHealth_healthCache [of E machine "emit [ListerGet k] s"] c
  have "healthCache s2 = healthCache s" by (simp add: emit_def)
  with Inr c show ?thesis
    by (simp add: watchHealth_def lookup_not_found_def poll_stops_def emit_def Let_def
        split: option.splits)
qed

theorem watchHealth_stops_iff_not_found_witness:
  "(lookup_not_found (example_env (Inl (StatusNotFound ''machine m1 not found'')) (Inr (ClientSet ''cls-1'')) None)
       (world (example_state {''m1'', ''m2''})) ''m1''
    \<and> poll_stops (fst (watchHealth
         (example_env (Inl (StatusNotFound ''machine m1 not found'')) (Inr (ClientSet ''cls-1'')) None)
         ''m1'' (example_state {''m1'', ''m2''})))
    \<and> healthCache (snd (watchHealth
         (example_env (Inl (StatusNotFound ''machine m1 not found'')) (Inr (ClientSet ''cls-1'')) None)
         ''m1'' (example_state {''m1'', ''m2''}))) = {''m2''})
   \<and> (\<not> lookup_not_found (example_env (Inl (PlainError ''store unavailable'')) (Inr (ClientSet ''cls-1'')) None)
         (world (example_state {''m1'', ''m2''})) ''m1''
    \<and> \<not> poll_stops (fst (watchHealth
         (example_env (Inl (PlainError ''store unavailable'')) (Inr (ClientSet ''cls-1'')) None)
         ''m1'' (example_state {''m1'', ''m2''})))
    \<and> healthCache (snd (watchHealth
         (example_env (Inl (PlainError ''store unavailable'')) (Inr (ClientSet ''cls-1'')) None)
         ''m1'' (example_state {''m1'', ''m2''}))) = {''m1'', ''m2''})
   \<and> (\<not> lookup_not_found
         (example_env (Inr (example_machine ''dummy'' MachineRunning)) (Inl (PlainError ''no credential'')) None)
         (world (example_state {''m1'', ''m2''})) ''m1''
    \<and> \<not> poll_stops (fst (watchHealth
         (example_env (Inr (example_machine ''dummy'' MachineRunning)) (Inl (PlainError ''no credential'')) None)
         ''m1'' (example_state {''m1'', ''m2''})))
    \<and> healthCache (snd (watchHealth
         (example_env (Inr (example_machine ''dummy'' MachineRunning)) (Inl (PlainError ''no credential'')) None)
         ''m1'' (example_state {''m1'', ''m2''}))) = {''m1'', ''m2''})"
proof -
  have a: "lookup_not_found (example_env (Inl (StatusNotFound ''machine m1 not found'')) (Inr (ClientSet ''cls-1'')) None)
       (world (example_state {''m1'', ''m2''})) ''m1''"
    by (simp add: lookup_not_found_def example_env_def)
  have b: "\<not> lookup_not_found (example_env (Inl (PlainError ''store unavailable'')) (Inr (ClientSet ''cls-1'')) None)
         (world (example_state {''m1'', ''m2''})) ''m1''"
    by (simp add: lookup_not_found_def example_env_def)
  have c: "\<not> lookup_not_found
         (example_env (Inr (example_machine ''dummy'' MachineRunning)) (Inl (PlainError ''no credential'')) None)
         (world (example_state {''m1'', ''m2''})) ''m1''"
    by (simp add: lookup_not_found_def example_env_def)
  have hc: "healthCache (example_state {''m1'', ''m2''}) = {''m1'', ''m2''}"
    by (simp add: example_state_def)
  have d: "{''m1'', ''m2''} - {''m1''} = {''m2''}"
    by auto
  let ?E1 = "example_env (Inl (StatusNotFound ''machine m1 not found'')) (Inr (ClientSet ''cls-1'')) None"
  let ?E2 = "example_env (Inl (PlainError ''store unavailable'')) (Inr (ClientSet ''cls-1'')) None"
  let ?E3 = "example_env (Inr (example_machine ''dummy'' MachineRunning)) (Inl (PlainError ''no credential'')) None"
  let ?s = "example_state {''m1'', ''m2''}"
  from a watchHealth_stops_iff_not_found [of ?E1 "''m1''" ?s]
  have A: "poll_stops (fst (watchHealth ?E1 ''m1'' ?s))
           \<and> healthCache (snd (watchHealth ?E1 ''m1'' ?s)) = healthCache ?s - {''m1''}"
    by blast
  from b watchHealth_stops_iff_not_found [of ?E2 "''m1''" ?s]
  have B: "\<not> poll_stops (fst (watchHealth ?E2 ''m1'' ?s))
           \<and> healthCache (snd (watchHealth ?E2 ''m1'' ?s)) = healthCache ?s"
    by blast
  from c watchHealth_stops_iff_not_found [of ?E3 "''m1''" ?s]
  have C: "\<not> poll_stops (fst (watchHealth ?E3 ''m1'' ?s))
           \<and> healthCache (snd (watchHealth ?E3 ''m1'' ?s)) = healthCache ?s"
    by blast
  from a b c A B C show ?thesis
    unfolding hc d by blast
qed

text \<open>
  C3. For every probe by \<^verbatim>\<open>checkHealth\<close> (the health loop probes Machines in phase
  Running or Failed): if the downstream client cannot be built, or it is built and the
  node fetch by the Machine's address fails, the Machine is left in phase Failed with
  the HealthCheck condition False, reason FailedHealthCheck and the error's message as
  the condition's message; if the fetch succeeds the Machine is left in phase Running
  with the HealthCheck condition True.
\<close>

theorem checkHealth_sets_phase_and_condition:
  "(\<forall>e. BuildExternalClientSetWithName E (world s) (Spec_ClusterName (Spec m)) = Inl e \<longrightarrow>
        Phase (Status (fst (snd (checkHealth E m s)))) = MachineFailed
      \<and> health_condition (fst (snd (checkHealth E m s))) =
          Some \<lparr>Cond_Type = conditionTypeHealthCheck, Cond_Status = ConditionFalse,
                Cond_Reason = failedHealthCheckReason, Cond_Message = Error_msg e\<rparr>)
   \<and> (\<forall>cs e. BuildExternalClientSetWithName E (world s) (Spec_ClusterName (Spec m)) = Inr cs
             \<and> Nodes_Get E (world s) cs (Spec_IP (Spec m)) = Some e \<longrightarrow>
        Phase (Status (fst (snd (checkHealth E m s)))) = MachineFailed
      \<and> health_condition (fst (snd (checkHealth E m s))) =
          Some \<lparr>Cond_Type = conditionTypeHealthCheck, Cond_Status = ConditionFalse,
                Cond_Reason = failedHealthCheckReason, Cond_Message = Error_msg e\<rparr>)
   \<and> (\<forall>cs. BuildExternalClientSetWithName E (world s) (Spec_ClusterName (Spec m)) = Inr cs
           \<and> Nodes_Get E (world s) cs (Spec_IP (Spec m)) = None \<longrightarrow>
        Phase (Status (fst (snd (checkHealth E m s)))) = MachineRunning
      \<and> health_condition (fst (snd (checkHealth E m s))) =
          Some \<lparr>Cond_Type = conditionTypeHealthCheck, Cond_Status = ConditionTrue,
                Cond_Reason = [], Cond_Message = []\<rparr>)"
proof -
  have g: "\<And>c. Cond_Type c = conditionTypeHealthCheck \<Longrightarrow>
             get_cond conditionTypeHealthCheck (set_cond c (Conditions (Status m))) = Some c"
    using get_cond_set_cond by metis
  show ?thesis
    by (auto simp add: checkHealth_def SetCondition_def health_condition_def emit_def Let_def g
        split: sum.splits prod.splits option.splits)
qed

theorem checkHealth_sets_phase_and_condition_witness:
  "(Phase (Status (fst (snd (checkHealth
        (example_env (Inr (example_machine ''dummy'' MachineRunning)) (Inl (PlainError ''no credential'')) None)
        (example_machine ''dummy'' MachineRunning) (example_state {''m1''})))))
      = MachineFailed
    \<and> health_condition (fst (snd (checkHealth
        (example_env (Inr (example_machine ''dummy'' MachineRunning)) (Inl (PlainError ''no credential'')) None)
        (example_machine ''dummy'' MachineRunning) (example_state {''m1''}))))
      = Some \<lparr>Cond_Type = ''HealthCheck'', Cond_Status = ''False'',
              Cond_Reason = ''FailedHealthCheck'', Cond_Message = ''no credential''\<rparr>)
   \<and> (Phase (Status (fst (snd (checkHealth
        (example_env (Inr (example_machine ''dummy'' MachineRunning)) (Inr (ClientSet ''cls-1''))
           (Some (StatusNotFound ''node 10.0.0.1 not found'')))
        (example_machine ''dummy'' MachineRunning) (example_state {''m1''})))))
      = MachineFailed
    \<and> health_condition (fst (snd (checkHealth
        (example_env (Inr (example_machine ''dummy'' MachineRunning)) (Inr (ClientSet ''cls-1''))
           (Some (StatusNotFound ''node 10.0.0.1 not found'')))
        (example_machine ''dummy'' MachineRunning) (example_state {''m1''}))))
      = Some \<lparr>Cond_Type = ''HealthCheck'', Cond_Status = ''False'',
              Cond_Reason = ''FailedHealthCheck'', Cond_Message = ''node 10.0.0.1 not found''\<rparr>)
   \<and> (Phase (Status (fst (snd (checkHealth
        (example_env (Inr (example_machine ''dummy'' MachineFailed)) (Inr (ClientSet ''cls-1'')) None)
        (example_machine ''dummy'' MachineFailed) (example_state {''m1''})))))
      = MachineRunning
    \<and> health_condition (fst (snd (checkHealth
        (example_env (Inr (example_machine ''dummy'' MachineFailed)) (Inr (ClientSet ''cls-1'')) None)
        (example_machine ''dummy'' MachineFailed) (example_state {''m1''}))))
      = Some \<lparr>Cond_Type = ''HealthCheck'', Cond_Status = ''True'',
              Cond_Reason = [], Cond_Message = []\<rparr>)"
proof -
  have a: "BuildExternalClientSetWithName
             (example_env (Inr (example_machine ''dummy'' MachineRunning)) (Inl (PlainError ''no credential'')) None)
             (world (example_state {''m1''})) (Spec_ClusterName (Spec (example_machine ''dummy'' MachineRunning)))
           = Inl (PlainError ''no credential'')"
    by (simp add: example_env_def)
  have b: "BuildExternalClientSetWithName
             (example_env (Inr (example_machine ''dummy'' MachineRunning)) (Inr (ClientSet ''cls-1''))
                (Some (StatusNotFound ''node 10.0.0.1 not found'')))
             (world (example_state {''m1''})) (Spec_ClusterName (Spec (example_machine ''dummy'' MachineRunning)))
           = Inr (ClientSet ''cls-1'')
         \<and> Nodes_Get
             (example_env (Inr (example_machine ''dummy'' MachineRunning)) (Inr (ClientSet ''cls-1''))
                (Some (StatusNotFound ''node 10.0.0.1 not found'')))
             (world (example_state {''m1''})) (ClientSet ''cls-1'')
             (Spec_IP (Spec (example_machine ''dummy'' MachineRunning)))
           = Some (StatusNotFound ''node 10.0.0.1 not found'')"
    by (simp add: example_env_def)
  have c: "BuildExternalClientSetWithName
             (example_env (Inr (example_machine ''dummy'' MachineFailed)) (Inr (ClientSet ''cls-1'')) None)
             (world (example_state {''m1''})) (Spec_ClusterName (Spec (example_machine ''dummy'' MachineFailed)))
           = Inr (ClientSet ''cls-1'')
         \<and> Nodes_Get
             (example_env (Inr (example_machine ''dummy'' MachineFailed)) (Inr (ClientSet ''cls-1'')) None)
             (world (example_state {''m1''})) (ClientSet ''cls-1'')
             (Spec_IP (Spec (example_machine ''dummy'' MachineFailed)))
           = None"
    by (simp add: example_env_def)
  from a checkHealth_sets_phase_and_condition
      [of "example_env (Inr (example_machine ''dummy'' MachineRunning)) (Inl (PlainError ''no credential'')) None"
          "example_state {''m1''}" "example_machine ''dummy'' MachineRunning"]
  have A: "Phase (Status (fst (snd (checkHealth
        (example_env (Inr (example_machine ''dummy'' MachineRunning)) (Inl (PlainError ''no credential'')) None)
        (example_machine ''dummy'' MachineRunning) (example_state {''m1''})))))
      = MachineFailed
    \<and> health_condition (fst (snd (checkHealth
        (example_env (Inr (example_machine ''dummy'' MachineRunning)) (Inl (PlainError ''no credential'')) None)
        (example_machine ''dummy'' MachineRunning) (example_state {''m1''}))))
      = Some \<lparr>Cond_Type = ''HealthCheck'', Cond_Status = ''False'',
              Cond_Reason = ''FailedHealthCheck'', Cond_Message = ''no credential''\<rparr>"
    by (simp add: conditionTypeHealthCheck_def ConditionFalse_def failedHealthCheckReason_def)
  from b checkHealth_sets_phase_and_condition
      [of "example_env (Inr (example_machine ''dummy'' MachineRunning)) (Inr (ClientSet ''cls-1''))
             (Some (StatusNotFound ''node 10.0.0.1 not found''))"
          "example_state {''m1''}" "example_machine ''dummy'' MachineRunning"]
  have B: "Phase (Status (fst (snd (checkHealth
        (example_env (Inr (example_machine ''dummy'' MachineRunning)) (Inr (ClientSet ''cls-1''))
           (Some (StatusNotFound ''node 10.0.0.1 not found'')))
        (example_machine ''dummy'' MachineRunning) (example_state {''m1''})))))
      = MachineFailed
    \<and> health_condition (fst (snd (checkHealth
        (example_env (Inr (example_machine ''dummy'' MachineRunning)) (Inr (ClientSet ''cls-1''))
           (Some (StatusNotFound ''node 10.0.0.1 not found'')))
        (example_machine ''dummy'' MachineRunning) (example_state {''m1''}))))
      = Some \<lparr>Cond_Type = ''HealthCheck'', Cond_Status = ''False'',
              Cond_Reason = ''FailedHealthCheck'', Cond_Message = ''node 10.0.0.1 not found''\<rparr>"
    by (simp add: conditionTypeHealthCheck_def ConditionFalse_def failedHealthCheckReason_def)
  from c checkHealth_sets_phase_and_condition
      [of "example_env (Inr (example_machine ''dummy'' MachineFailed)) (Inr (ClientSet ''cls-1'')) None"
          "example_state {''m1''}" "example_machine ''dummy'' MachineFailed"]
  have C: "Phase (Status (fst (snd (checkHealth
        (example_env (Inr (example_machine ''dummy'' MachineFailed)) (Inr (ClientSet ''cls-1'')) None)
        (example_machine ''dummy'' MachineFailed) (example_state {''m1''})))))
      = MachineRunning
    \<and> health_condition (fst (snd (checkHealth
        (example_env (Inr (example_machine ''dummy'' MachineFailed)) (Inr (ClientSet ''cls-1'')) None)
        (example_machine ''dummy'' MachineFailed) (example_state {''m1''}))))
      = Some \<lparr>Cond_Type = ''HealthCheck'', Cond_Status = ''True'',
              Cond_Reason = [], Cond_Message = []\<rparr>"
    by (simp add: conditionTypeHealthCheck_def ConditionTrue_def)
  from A B C show ?thesis by blast
qed




end
